theory Spec2Isabelle
  imports Main
begin

section \<open>The firmware updater script \<^verbatim>\<open>unit-tests/test-fw-updater.py\<close>\<close>

text \<open>
  Python strings are modelled as \<^typ>\<open>string\<close>: a character is a code point below 256
  (ASCII and Latin-1), and the library functions are modelled as they behave on such
  strings. Python's unbounded integers are \<^typ>\<open>int\<close>. An exception is a value of type \<open>error\<close>; a function
  that can raise returns \<open>error + 'a\<close>, with \<open>Inl\<close> for the exception. \<^verbatim>\<open>sys.exit(n)\<close>
  raises \<^verbatim>\<open>SystemExit(n)\<close>. The calls \<^verbatim>\<open>log.e\<close>, \<^verbatim>\<open>log.i\<close> of the \<^verbatim>\<open>rspy\<close>
  package only print a message and are left out.
\<close>

datatype error = SystemExit int | IndexError | ValueError

subsection \<open>String primitives of the Python library\<close>

text \<open>\<^verbatim>\<open>str.isspace\<close> on one character, which is where \<^verbatim>\<open>str.split()\<close> splits:
  tab, line feed, vertical tab, form feed, carriage return, the four separators
  \<^verbatim>\<open>\x1c\<close>..\<^verbatim>\<open>\x1f\<close>, space, next line \<^verbatim>\<open>\x85\<close> and no-break space \<^verbatim>\<open>\xa0\<close>.\<close>

definition py_isspace :: "char \<Rightarrow> bool" where
  "py_isspace c = (c \<in> set [CHR 0x09, CHR 0x0A, CHR 0x0B, CHR 0x0C, CHR 0x0D,
                              CHR 0x1C, CHR 0x1D, CHR 0x1E, CHR 0x1F, CHR 0x20,
                              CHR 0x85, CHR 0xA0])"

text \<open>\<^verbatim>\<open>s.split(sep)\<close> for a one-character separator: the pieces between the separators,
  empty pieces included; the result always has one piece more than \<open>s\<close> has separators.\<close>

fun split_on :: "char \<Rightarrow> string \<Rightarrow> string list" where
  "split_on sep [] = [[]]"
| "split_on sep (c # cs) =
     (if c = sep then [] # split_on sep cs
      else (case split_on sep cs of
              [] \<Rightarrow> [[c]]
            | w # ws \<Rightarrow> (c # w) # ws))"

text \<open>\<^verbatim>\<open>s.split()\<close> with no argument: the maximal runs of non-whitespace characters.
  The second argument is the word being read, reversed.\<close>

fun split_words :: "string \<Rightarrow> string \<Rightarrow> string list" where
  "split_words [] acc = (if acc = [] then [] else [rev acc])"
| "split_words (c # cs) acc =
     (if py_isspace c then (if acc = [] then split_words cs [] else rev acc # split_words cs [])
      else split_words cs (c # acc))"

definition py_split :: "string \<Rightarrow> string list" where
  "py_split s = split_words s []"

text \<open>\<^verbatim>\<open>sub in s\<close> on strings: \<open>sub\<close> occurs in \<open>s\<close> as a contiguous substring.\<close>

fun py_in :: "string \<Rightarrow> string \<Rightarrow> bool" where
  "py_in sub [] = (sub = [])"
| "py_in sub (c # cs) = (if take (length sub) (c # cs) = sub then True else py_in sub cs)"

text \<open>\<^verbatim>\<open>s[1:-1]\<close>: from index 1 up to, and without, the last character; empty when
  \<open>s\<close> has fewer than three characters.\<close>

definition slice_1_m1 :: "string \<Rightarrow> string" where
  "slice_1_m1 s = drop 1 (take (length s - 1) s)"

text \<open>\<^verbatim>\<open>int(s)\<close> on a string, base 10: surrounding whitespace is skipped, one sign
  is allowed, then at least one digit \<^verbatim>\<open>0\<close>..\<^verbatim>\<open>9\<close>, where single underscores may stand
  between digits. Anything else raises \<^verbatim>\<open>ValueError\<close>, and so does a literal of more
  than \<open>int_max_str_digits\<close> digits (underscores not counted): 4300 is the interpreter's
  default, which the script does not change.

  The whitespace that \<^verbatim>\<open>int\<close> skips is not that of \<^verbatim>\<open>str.isspace\<close>: it is tab, line
  feed, vertical tab, form feed, carriage return and space, and of the code points from 128
  on \<^verbatim>\<open>\x85\<close> and \<^verbatim>\<open>\xa0\<close>, which the conversion first turns into spaces. The
  separators \<^verbatim>\<open>\x1c\<close>..\<^verbatim>\<open>\x1f\<close> are not skipped.\<close>

definition int_isspace :: "char \<Rightarrow> bool" where
  "int_isspace c = (c \<in> set [CHR 0x09, CHR 0x0A, CHR 0x0B, CHR 0x0C, CHR 0x0D, CHR 0x20,
                               CHR 0x85, CHR 0xA0])"

definition int_max_str_digits :: nat where
  "int_max_str_digits = 4300"

definition is_digit :: "char \<Rightarrow> bool" where
  "is_digit c = (c \<in> set ''0123456789'')"

definition digit_val :: "char \<Rightarrow> int" where
  "digit_val c = int (of_char c) - 48"

fun digits_from :: "int \<Rightarrow> string \<Rightarrow> int option" where
  "digits_from acc [] = Some acc"
| "digits_from acc (c # cs) =
     (if is_digit c then digits_from (acc * 10 + digit_val c) cs
      else if c = CHR ''_'' then
        (case cs of
           [] \<Rightarrow> None
         | d # ds \<Rightarrow> if is_digit d then digits_from (acc * 10 + digit_val d) ds else None)
      else None)"

definition py_digits :: "string \<Rightarrow> error + int" where
  "py_digits s =
     (case s of
        [] \<Rightarrow> Inl ValueError
      | c # cs \<Rightarrow>
          if is_digit c then
            (case digits_from (digit_val c) cs of
               None \<Rightarrow> Inl ValueError
             | Some n \<Rightarrow>
                 if int_max_str_digits < length (filter is_digit s) then Inl ValueError
                 else Inr n)
          else Inl ValueError)"

definition int_strip :: "string \<Rightarrow> string" where
  "int_strip s = rev (dropWhile int_isspace (rev (dropWhile int_isspace s)))"

definition py_int :: "string \<Rightarrow> error + int" where
  "py_int s =
     (case int_strip s of
        [] \<Rightarrow> Inl ValueError
      | c # cs \<Rightarrow>
          if c = CHR ''-'' then
            (case py_digits cs of Inl e \<Rightarrow> Inl e | Inr n \<Rightarrow> Inr (- n))
          else if c = CHR ''+'' then py_digits cs
          else py_digits (c # cs))"

subsection \<open>\<^verbatim>\<open>has_newer_fw\<close>\<close>

text \<open>The loop over \<^verbatim>\<open>zip(current_fw_digits, bundled_fw_digits)\<close>. In
  \<^verbatim>\<open>int(bundled) > int(curr)\<close> the left operand is evaluated first; either conversion
  can raise. The second comparison converts the same two strings again, with the same
  results.\<close>

fun compare_digits :: "(string \<times> string) list \<Rightarrow> error + bool" where
  "compare_digits [] = Inr False"
| "compare_digits ((cur, bundled) # rest) =
     (case py_int bundled of
        Inl e \<Rightarrow> Inl e
      | Inr b \<Rightarrow>
          (case py_int cur of
             Inl e \<Rightarrow> Inl e
           | Inr c \<Rightarrow>
               if b > c then Inr True
               else if b < c then Inr False
               else compare_digits rest))"

definition has_newer_fw :: "string \<Rightarrow> string \<Rightarrow> error + bool" where
  "has_newer_fw current_fw bundled_fw =
     (let current_fw_digits = split_on CHR ''.'' current_fw;
          bundled_fw_digits = split_on CHR ''.'' bundled_fw
      in if length current_fw_digits \<noteq> length bundled_fw_digits then Inl (SystemExit 1)
         else compare_digits (zip current_fw_digits bundled_fw_digits))"

text \<open>Following the spec's words, on the parsed components: at the first left-to-right
  pair of components that differ, the bundled component \<open>bs ! i\<close> is greater than the
  current one \<open>cs ! i\<close>.\<close>

definition newer_at_first_difference :: "int list \<Rightarrow> int list \<Rightarrow> bool" where
  "newer_at_first_difference cs bs =
     (\<exists>i<length cs. (\<forall>j<i. cs ! j = bs ! j) \<and> cs ! i < bs ! i)"

subsection \<open>\<^verbatim>\<open>get_bundled_fw_version\<close>\<close>

definition dquote :: char where
  "dquote = CHR 0x22"

text \<open>\<^verbatim>\<open>for line in fw_versions\<close> on a file opened in text mode: a line ends at
  \<^verbatim>\<open>\n\<close>, \<^verbatim>\<open>\r\<close> or \<^verbatim>\<open>\r\n\<close> (universal newlines). The model drops the line
  terminator, which \<^verbatim>\<open>line.split()\<close> discards as whitespace anyway. The second argument
  is the line being read, reversed.\<close>

fun file_lines :: "string \<Rightarrow> string \<Rightarrow> string list" where
  "file_lines [] acc = (if acc = [] then [] else [rev acc])"
| "file_lines (c # cs) acc =
     (if c = CHR 0x0A then rev acc # file_lines cs []
      else if c = CHR 0x0D then
        (case cs of
           [] \<Rightarrow> [rev acc]
         | d # ds \<Rightarrow>
             if d = CHR 0x0A then rev acc # file_lines ds [] else rev acc # file_lines cs [])
      else file_lines cs (c # acc))"

text \<open>The loop over the lines. \<^verbatim>\<open>words[1]\<close> and \<^verbatim>\<open>words[2]\<close> raise
  \<^verbatim>\<open>IndexError\<close> on a list that is too short; the source checks only that the list is
  not empty.\<close>

fun fw_versions_loop :: "string \<Rightarrow> string list \<Rightarrow> error + string option" where
  "fw_versions_loop product_line [] = Inr None"
| "fw_versions_loop product_line (line # rest) =
     (let words = py_split line in
      if length words = 0 then fw_versions_loop product_line rest
      else if words ! 0 \<noteq> ''#define'' then fw_versions_loop product_line rest
      else if length words < 2 then Inl IndexError
      else if py_in (take 2 product_line) (words ! 1) then
        (if length words < 3 then Inl IndexError
         else Inr (Some (slice_1_m1 (words ! 2))))
      else fw_versions_loop product_line rest)"

text \<open>The first argument is the content of the file \<^verbatim>\<open>fw_versions_file\<close>, which the
  source reads through a global.\<close>

definition get_bundled_fw_version :: "string \<Rightarrow> string \<Rightarrow> error + string option" where
  "get_bundled_fw_version fw_versions product_line =
     fw_versions_loop product_line (file_lines fw_versions [])"

subsection \<open>\<^verbatim>\<open>filesin\<close> and \<^verbatim>\<open>find\<close>\<close>

text \<open>\<^verbatim>\<open>filesin\<close> takes the names \<^verbatim>\<open>os.path.relpath(path + '/' + leaf, root)\<close> in
  the order of \<^verbatim>\<open>os.walk\<close> and replaces every backslash by a slash.\<close>

definition filesin :: "string list \<Rightarrow> string list" where
  "filesin relpaths = map (map (\<lambda>c. if c = CHR 0x5C then CHR ''/'' else c)) relpaths"

text \<open>\<^verbatim>\<open>re.compile\<close> for the masks this script builds: \<^verbatim>\<open>(^|/)\<close>, then a body, then
  \<^verbatim>\<open>$\<close>. In the body \<^verbatim>\<open>.\<close> stands for any character but a line feed and every
  character that is not special to \<^verbatim>\<open>re\<close> stands for itself. A mask of another shape, or
  with another special character in its body, is outside the model: \<open>None\<close>.\<close>

datatype re_item = Literal char | AnyChar

definition re_special :: "char \<Rightarrow> bool" where
  "re_special c = (c \<in> set (CHR 0x5C # ''.^$*+?{}[]|()''))"

fun re_body :: "string \<Rightarrow> re_item list option" where
  "re_body [] = Some []"
| "re_body (c # cs) =
     (case re_body cs of
        None \<Rightarrow> None
      | Some items \<Rightarrow>
          if c = CHR ''.'' then Some (AnyChar # items)
          else if re_special c then None
          else Some (Literal c # items))"

definition re_compile :: "string \<Rightarrow> re_item list option" where
  "re_compile mask' =
     (if take 5 mask' = ''(^|/)'' \<and> 6 \<le> length mask' \<and> last mask' = CHR ''$''
      then re_body (butlast (drop 5 mask'))
      else None)"

text \<open>\<^verbatim>\<open>pattern.search\<close>: the body is matched character by character; \<^verbatim>\<open>$\<close> holds
  at the end of the string and just before a line feed that ends the string; \<^verbatim>\<open>(^|/)\<close>
  holds at the start of the string (consuming nothing) or consumes one slash anywhere.\<close>

fun item_matches :: "re_item \<Rightarrow> char \<Rightarrow> bool" where
  "item_matches (Literal a) c = (c = a)"
| "item_matches AnyChar c = (c \<noteq> CHR 0x0A)"

fun match_body :: "re_item list \<Rightarrow> string \<Rightarrow> string option" where
  "match_body [] s = Some s"
| "match_body (i # items) [] = None"
| "match_body (i # items) (c # cs) = (if item_matches i c then match_body items cs else None)"

definition at_dollar :: "string \<Rightarrow> bool" where
  "at_dollar s = (s = [] \<or> s = [CHR 0x0A])"

definition match_here :: "re_item list \<Rightarrow> string \<Rightarrow> bool" where
  "match_here p s = (case match_body p s of None \<Rightarrow> False | Some r \<Rightarrow> at_dollar r)"

fun search_slash :: "re_item list \<Rightarrow> string \<Rightarrow> bool" where
  "search_slash p [] = False"
| "search_slash p (c # cs) =
     (if c = CHR ''/'' \<and> match_here p cs then True else search_slash p cs)"

definition re_search :: "re_item list \<Rightarrow> string \<Rightarrow> bool" where
  "re_search p s = (if match_here p s then True else search_slash p s)"

text \<open>\<^verbatim>\<open>find\<close>: the first argument is what \<^verbatim>\<open>filesin(dir)\<close> yields; the matching
  names are yielded in the same order.\<close>

definition find_py :: "string list \<Rightarrow> string \<Rightarrow> string list option" where
  "find_py leafs mask' =
     (case re_compile mask' of
        None \<Rightarrow> None
      | Some pattern \<Rightarrow> Some (filter (re_search pattern) leafs))"

subsection \<open>The script\<close>

text \<open>\<^verbatim>\<open>os.path.join\<close> of two components, as \<^verbatim>\<open>posixpath\<close> has it.\<close>

definition os_path_join :: "string \<Rightarrow> string \<Rightarrow> string" where
  "os_path_join a b =
     (if take 1 b = ''/'' then b
      else if a = [] \<or> last a = CHR ''/'' then a @ b
      else a @ ''/'' @ b)"

text \<open>The loops \<^verbatim>\<open>for file in find(...): v = os.path.join(librealsense, file)\<close>: the
  third argument is the variable \<open>v\<close>, \<open>None\<close> before the loop.\<close>

fun last_found :: "string \<Rightarrow> string list \<Rightarrow> string option \<Rightarrow> string option" where
  "last_found root [] v = v"
| "last_found root (file # files) v = last_found root files (Some (os_path_join root file))"

definition updater_mask :: string where
  "updater_mask = ''(^|/)rs-fw-update.exe$''"

definition image_name :: "string \<Rightarrow> string \<Rightarrow> string" where
  "image_name product_line bundled_fw_version =
     take 2 product_line @ ''XX_FW_Image-'' @ bundled_fw_version @ ''.bin''"

definition image_mask :: "string \<Rightarrow> string \<Rightarrow> string" where
  "image_mask product_line bundled_fw_version =
     ''(^|/)'' @ image_name product_line bundled_fw_version @ ''$''"

text \<open>What the script reads from its environment: the directory \<^verbatim>\<open>librealsense\<close>,
  whether \<^verbatim>\<open>fw_versions_file\<close> is a file and its content, the names
  \<^verbatim>\<open>filesin(librealsense)\<close> starts from (taken to be the same in both searches), and
  the devices of \<^verbatim>\<open>devices.all()\<close> with the two strings \<^verbatim>\<open>get_info\<close> returns.\<close>

record device =
  dev_firmware_version :: string
  dev_product_line :: string

record env =
  root_dir :: string
  fw_versions_isfile :: bool
  fw_versions_text :: string
  walk_relpaths :: "string list"
  devices_all :: "device list"

text \<open>How a run ends: an exception reaches the top level (\<^verbatim>\<open>SystemExit(n)\<close> ends
  the process with status \<open>n\<close>, any other exception with status 1), or
  \<^verbatim>\<open>subprocess.run([fw_updater_exe, '-f', image_file])\<close> is called, or a mask is outside
  the modelled part of \<^verbatim>\<open>re\<close>.\<close>

datatype outcome = Raised error | Ran string string | Unmodelled_mask

fun exit_status :: "error \<Rightarrow> int" where
  "exit_status (SystemExit n) = n"
| "exit_status IndexError = 1"
| "exit_status ValueError = 1"

text \<open>Lines 86 to 106: the single device is known and the update tool was found.\<close>

definition update_device :: "env \<Rightarrow> string \<Rightarrow> device \<Rightarrow> outcome" where
  "update_device e fw_updater_exe dev =
     (let current_fw_version = dev_firmware_version dev;
          product_line = dev_product_line dev
      in case get_bundled_fw_version (fw_versions_text e) product_line of
           Inl err \<Rightarrow> Raised err
         | Inr None \<Rightarrow> Raised (SystemExit 1)
         | Inr (Some bundled_fw_version) \<Rightarrow>
             if bundled_fw_version = [] then Raised (SystemExit 1)
             else
               (case has_newer_fw current_fw_version bundled_fw_version of
                  Inl err \<Rightarrow> Raised err
                | Inr newer \<Rightarrow>
                    if \<not> newer then Raised (SystemExit 0)
                    else
                      (case find_py (filesin (walk_relpaths e))
                              (image_mask product_line bundled_fw_version) of
                         None \<Rightarrow> Unmodelled_mask
                       | Some files \<Rightarrow>
                           (case last_found (root_dir e) files None of
                              None \<Rightarrow> Raised (SystemExit 1)
                            | Some image_file \<Rightarrow>
                                if image_file = [] then Raised (SystemExit 1)
                                else Ran fw_updater_exe image_file))))"

text \<open>Lines 66 to 85.\<close>

definition main :: "env \<Rightarrow> outcome" where
  "main e =
     (if \<not> fw_versions_isfile e then Raised (SystemExit 1)
      else
        (case find_py (filesin (walk_relpaths e)) updater_mask of
           None \<Rightarrow> Unmodelled_mask
         | Some files \<Rightarrow>
             (case last_found (root_dir e) files None of
                None \<Rightarrow> Raised (SystemExit 1)
              | Some fw_updater_exe \<Rightarrow>
                  if fw_updater_exe = [] then Raised (SystemExit 1)
                  else if length (devices_all e) \<noteq> 1 then Raised (SystemExit 1)
                  else update_device e fw_updater_exe (hd (devices_all e)))))"

text \<open>The scenario of the spec: one D400 device with firmware 5.12.1, a manifest whose
  only definition is \<^verbatim>\<open>#define D4XX_FW_VERSION "5.13.0"\<close>, and a tree that holds the
  update tool and the image.\<close>

definition d4_manifest :: string where
  "d4_manifest =
     ''#pragma once'' @ [CHR 0x0A] @
     ''#define D4XX_FW_VERSION '' @ [dquote] @ ''5.13.0'' @ [dquote] @ [CHR 0x0A]"

definition d4_env :: env where
  "d4_env =
     \<lparr> root_dir = ''/librealsense'',
       fw_versions_isfile = True,
       fw_versions_text = d4_manifest,
       walk_relpaths = [''build/tools/fw-update/rs-fw-update.exe'',
                        ''common/fw/D4XX_FW_Image-5.13.0.bin''],
       devices_all = [\<lparr> dev_firmware_version = ''5.12.1'', dev_product_line = ''D400'' \<rparr>] \<rparr>"

text \<open>A manifest whose first line is a bare \<^verbatim>\<open>#define\<close>, followed by the line of
  the scenario.\<close>

definition bare_define_manifest :: string where
  "bare_define_manifest =
     ''#define'' @ [CHR 0x0A] @
     ''#define D4XX_FW_VERSION '' @ [dquote] @ ''5.13.0'' @ [dquote] @ [CHR 0x0A]"

text \<open>The scenario with two builds in the tree: the update tool and the image are each
  found twice.\<close>

definition two_builds_env :: env where
  "two_builds_env =
     d4_env\<lparr> walk_relpaths :=
       [''build/Debug/rs-fw-update.exe'', ''common/fw/D4XX_FW_Image-5.13.0.bin'',
        ''build/Release/rs-fw-update.exe'', ''build/common/fw/D4XX_FW_Image-5.13.0.bin''] \<rparr>"

text \<open>Following the spec's words, on the list of tokens of a line: the first token is
  \<^verbatim>\<open>#define\<close> and the second token contains the first two characters of the product
  line.\<close>

definition qualifying_line :: "string \<Rightarrow> string list \<Rightarrow> bool" where
  "qualifying_line product_line words =
     (2 \<le> length words \<and> words ! 0 = ''#define'' \<and> py_in (take 2 product_line) (words ! 1))"

text \<open>A header with an include guard: a \<^verbatim>\<open>#define\<close> of two tokens before the line of
  the scenario (written with a no-break space before the version and with \<^verbatim>\<open>\r\n\<close>
  line ends), and a bare \<^verbatim>\<open>#define\<close> after it.\<close>

definition guarded_manifest :: string where
  "guarded_manifest =
     ''#ifndef FIRMWARE_VERSION_H'' @ [CHR 0x0D, CHR 0x0A] @
     ''#define FIRMWARE_VERSION_H'' @ [CHR 0x0D, CHR 0x0A] @
     ''#define D4XX_FW_VERSION'' @ [CHR 0xA0, dquote] @ ''5.13.0'' @ [dquote, CHR 0x0D, CHR 0x0A] @
     ''#define'' @ [CHR 0x0D, CHR 0x0A] @
     ''#endif''"

text \<open>A manifest whose version is not in quotes, and is followed by a fourth token after a
  no-break space.\<close>

definition unquoted_manifest :: string where
  "unquoted_manifest =
     ''#pragma once'' @ [CHR 0x0A] @
     ''#define D4XX_FW_VERSION 5.13.0'' @ [CHR 0xA0] @ ''x'' @ [CHR 0x0A]"

section \<open>Properties\<close>

subsection \<open>Evaluation of the string primitives\<close>

lemmas py_int_eval =
  py_int_def int_strip_def py_digits_def int_isspace_def is_digit_def digit_val_def
  int_max_str_digits_def

text \<open>The separators \<^verbatim>\<open>\x1c\<close>..\<^verbatim>\<open>\x1f\<close> are no whitespace for \<^verbatim>\<open>int\<close>;
  \<^verbatim>\<open>\x85\<close> and \<^verbatim>\<open>\xa0\<close> are.\<close>

lemma py_int_examples:
  "py_int [CHR 0x1C, CHR ''5''] = Inl ValueError"
  "py_int (''5.1'' @ [CHR 0x1F]) = Inl ValueError"
  "py_int [CHR 0xA0, CHR ''5'', CHR 0x85] = Inr 5"
  "py_int '' -0_7 '' = Inr (- 7)"
  by (simp_all add: py_int_eval)

lemma py_digits_limit:
  "int_max_str_digits < length (filter is_digit s) \<Longrightarrow> py_digits s = Inl ValueError"
  by (auto simp: py_digits_def split: list.splits option.splits)

lemma split_on_nonempty: "split_on sep s \<noteq> []"
  by (induction s) (auto split: list.splits)

lemma length_split_on: "length (split_on sep s) = Suc (count_list s sep)"
  by (induction s) (auto split: list.splits simp: split_on_nonempty)

subsection \<open>Version comparison\<close>

lemma newer_at_first_difference_Nil: "newer_at_first_difference [] bs = False"
  by (simp add: newer_at_first_difference_def)

lemma newer_at_first_difference_Cons:
  "newer_at_first_difference (c # cs) (b # bs) =
     (c < b \<or> (c = b \<and> newer_at_first_difference cs bs))"
proof
  assume "newer_at_first_difference (c # cs) (b # bs)"
  then obtain i where i: "i < Suc (length cs)"
      "\<forall>j<i. (c # cs) ! j = (b # bs) ! j" "(c # cs) ! i < (b # bs) ! i"
    by (auto simp: newer_at_first_difference_def)
  show "c < b \<or> (c = b \<and> newer_at_first_difference cs bs)"
  proof (cases i)
    case 0
    with i show ?thesis by simp
  next
    case (Suc k)
    with i have "c = b" by auto
    moreover from Suc i have "k < length cs" "cs ! k < bs ! k" by auto
    moreover from Suc i have "\<forall>j<k. cs ! j = bs ! j" by auto
    ultimately show ?thesis
      unfolding newer_at_first_difference_def by blast
  qed
next
  assume "c < b \<or> (c = b \<and> newer_at_first_difference cs bs)"
  then show "newer_at_first_difference (c # cs) (b # bs)"
  proof
    assume "c < b"
    then show ?thesis
      unfolding newer_at_first_difference_def by (intro exI[of _ 0]) simp
  next
    assume "c = b \<and> newer_at_first_difference cs bs"
    then obtain k where k: "c = b" "k < length cs" "\<forall>j<k. cs ! j = bs ! j" "cs ! k < bs ! k"
      by (auto simp: newer_at_first_difference_def)
    have "\<forall>j<Suc k. (c # cs) ! j = (b # bs) ! j"
      using k by (auto simp: nth_Cons split: nat.splits)
    with k show ?thesis
      unfolding newer_at_first_difference_def by (intro exI[of _ "Suc k"]) simp
  qed
qed

lemma compare_digits_parsed:
  "map py_int xs = map Inr cs \<Longrightarrow> map py_int ys = map Inr bs \<Longrightarrow> length cs = length bs \<Longrightarrow>
   compare_digits (zip xs ys) = Inr (newer_at_first_difference cs bs)"
proof (induction cs arbitrary: bs xs ys)
  case Nil
  then show ?case by (simp add: newer_at_first_difference_Nil)
next
  case (Cons c cs)
  then obtain b bs' where bs: "bs = b # bs'" by (cases bs) auto
  from Cons.prems obtain x xs' where xs: "xs = x # xs'" by (cases xs) auto
  from Cons.prems bs obtain y ys' where ys: "ys = y # ys'" by (cases ys) auto
  from Cons.prems xs ys bs have px: "py_int x = Inr c" and py: "py_int y = Inr b"
    and rest: "map py_int xs' = map Inr cs" "map py_int ys' = map Inr bs'" "length cs = length bs'"
    by auto
  from Cons.IH[OF rest] show ?case
    by (auto simp: xs ys bs px py newer_at_first_difference_Cons)
qed

lemma compare_digits_self:
  "\<forall>c\<in>set xs. \<exists>n. py_int c = Inr n \<Longrightarrow> compare_digits (zip xs xs) = Inr False"
  by (induction xs) auto

lemma compare_digits_self_not_True: "compare_digits (zip xs xs) \<noteq> Inr True"
  by (induction xs) (auto split: sum.splits)

text \<open>
  C1. Let the components of \<open>current_fw\<close> and of \<open>bundled_fw\<close> (the pieces between the
  dots) all be integer literals, with values \<open>cs\<close> and \<open>bs\<close>, and let the two versions have
  the same number of components. Then \<open>has_newer_fw\<close> returns, and it returns true exactly
  when at the first pair of components that differ as integers the bundled one is the
  greater; when no pair differs it returns false. The comparison is numeric: for
  \<open>1.20.0\<close> against the bundled \<open>1.3.0\<close> the result is false, the other way round true.
\<close>

theorem has_newer_fw_first_difference:
  assumes "map py_int (split_on CHR ''.'' current_fw) = map Inr cs"
      and "map py_int (split_on CHR ''.'' bundled_fw) = map Inr bs"
      and "length cs = length bs"
  shows "has_newer_fw current_fw bundled_fw = Inr (newer_at_first_difference cs bs)"
proof -
  from assms have "length (split_on CHR ''.'' current_fw) = length (split_on CHR ''.'' bundled_fw)"
    by (metis length_map)
  with compare_digits_parsed[OF assms] show ?thesis
    by (simp add: has_newer_fw_def)
qed

theorem has_newer_fw_first_difference_witness:
  "has_newer_fw ''1.20.0'' ''1.3.0'' = Inr False \<and> has_newer_fw ''1.3.0'' ''1.20.0'' = Inr True"
proof -
  have a: "map py_int (split_on CHR ''.'' ''1.20.0'') = map Inr [1, 20, 0]"
    by (simp add: py_int_eval)
  have b: "map py_int (split_on CHR ''.'' ''1.3.0'') = map Inr [1, 3, 0]"
    by (simp add: py_int_eval)
  have l: "length [1, 20, 0 :: int] = length [1, 3, 0 :: int]" by simp
  show ?thesis
    using has_newer_fw_first_difference[OF a b l]
      has_newer_fw_first_difference[OF b a l[symmetric]]
    by (simp add: newer_at_first_difference_Cons newer_at_first_difference_Nil)
qed

text \<open>
  C2. When the two version strings have different numbers of components,
  \<open>has_newer_fw\<close> returns no truth value: it raises \<^verbatim>\<open>SystemExit(1)\<close>, whatever the
  components are (they are not even converted), and that exception ends the process with
  status 1.
\<close>

theorem has_newer_fw_format_mismatch:
  assumes "length (split_on CHR ''.'' current_fw) \<noteq> length (split_on CHR ''.'' bundled_fw)"
  shows "has_newer_fw current_fw bundled_fw = Inl (SystemExit 1)
         \<and> exit_status (SystemExit 1) = 1"
  using assms by (simp add: has_newer_fw_def)

theorem has_newer_fw_format_mismatch_witness:
  "length (split_on CHR ''.'' ''1.2'') \<noteq> length (split_on CHR ''.'' ''1.2.0'')
   \<and> has_newer_fw ''1.2'' ''1.2.0'' = Inl (SystemExit 1)
   \<and> has_newer_fw ''9.x'' ''1'' = Inl (SystemExit 1)"
proof -
  have a: "length (split_on CHR ''.'' ''1.2'') \<noteq> length (split_on CHR ''.'' ''1.2.0'')"
    by simp
  have b: "length (split_on CHR ''.'' ''9.x'') \<noteq> length (split_on CHR ''.'' ''1'')"
    by simp
  show ?thesis
    using a has_newer_fw_format_mismatch[OF a] has_newer_fw_format_mismatch[OF b] by simp
qed

text \<open>
  C8. \<open>has_newer_fw A A\<close> never returns true, whatever the string \<open>A\<close> is; and for a
  version string \<open>A\<close> whose components are all integer literals it returns false. (Every
  string has at least one component; on a component that is no integer literal the
  conversion raises \<^verbatim>\<open>ValueError\<close>.)
\<close>

theorem has_newer_fw_self:
  "has_newer_fw A A \<noteq> Inr True
   \<and> ((\<forall>c\<in>set (split_on CHR ''.'' A). \<exists>n. py_int c = Inr n) \<longrightarrow> has_newer_fw A A = Inr False)"
  using compare_digits_self[of "split_on CHR ''.'' A"]
    compare_digits_self_not_True[of "split_on CHR ''.'' A"]
  by (simp add: has_newer_fw_def Let_def)

theorem has_newer_fw_self_witness:
  "has_newer_fw ''5.13.0'' ''5.13.0'' = Inr False \<and> has_newer_fw ''5.x'' ''5.x'' \<noteq> Inr True"
proof -
  have "\<forall>c\<in>set (split_on CHR ''.'' ''5.13.0''). \<exists>n. py_int c = Inr n"
    by (simp add: py_int_eval)
  with has_newer_fw_self[of "''5.13.0''"] has_newer_fw_self[of "''5.x''"] show ?thesis
    by blast
qed

subsection \<open>Reading the manifest\<close>

lemmas manifest_eval =
  get_bundled_fw_version_def py_split_def py_isspace_def dquote_def slice_1_m1_def d4_manifest_def

lemmas split_eval = py_split_def py_isspace_def dquote_def

lemma slice_1_m1_butlast_tl: "slice_1_m1 s = butlast (tl s)"
proof -
  have "take (length s - 1) s = butlast s" by (simp add: butlast_conv_take)
  then show ?thesis by (simp add: slice_1_m1_def drop_Suc butlast_tl)
qed

lemma slice_1_m1_quoted: "slice_1_m1 (dquote # v @ [dquote]) = v"
  by (simp add: slice_1_m1_butlast_tl)

lemma split_words_nonempty: "w \<in> set (split_words s acc) \<Longrightarrow> w \<noteq> []"
  by (induction s acc rule: split_words.induct) (auto split: if_splits)

lemma py_split_nonempty: "w \<in> set (py_split s) \<Longrightarrow> w \<noteq> []"
  unfolding py_split_def by (rule split_words_nonempty)

lemma butlast_tl_neq: "t \<noteq> [] \<Longrightarrow> butlast (tl t) \<noteq> t"
proof
  assume "t \<noteq> []" "butlast (tl t) = t"
  then have "length (butlast (tl t)) = length t" by simp
  with \<open>t \<noteq> []\<close> show False by (cases t) auto
qed

text \<open>The loop, exactly: the first line that starts with \<^verbatim>\<open>#define\<close> and has no second
  token, or a second token that contains the prefix, decides.\<close>

lemma fw_versions_loop_decisive:
  "fw_versions_loop product_line lines =
     (case find (\<lambda>words. words \<noteq> [] \<and> words ! 0 = ''#define''
                   \<and> (length words < 2 \<or> py_in (take 2 product_line) (words ! 1)))
                (map py_split lines) of
        None \<Rightarrow> Inr None
      | Some words \<Rightarrow>
          if length words < 3 then Inl IndexError else Inr (Some (slice_1_m1 (words ! 2))))"
  by (induction lines) (auto simp: Let_def)

lemma fw_versions_loop_skips:
  assumes "map py_split lines = pre @ rest"
      and "\<forall>w\<in>set pre. w \<noteq> [''#define''] \<and> \<not> qualifying_line product_line w"
  shows "fw_versions_loop product_line lines =
         fw_versions_loop product_line (drop (length pre) lines)"
  using assms
proof (induction pre arbitrary: lines)
  case Nil
  then show ?case by simp
next
  case (Cons w pre)
  from Cons.prems(1) obtain l ls where lines: "lines = l # ls" and l: "py_split l = w"
    and ls: "map py_split ls = pre @ rest"
    by (cases lines) auto
  from Cons.prems(2) have w: "w \<noteq> [''#define'']" "\<not> qualifying_line product_line w"
    and pre: "\<forall>w\<in>set pre. w \<noteq> [''#define''] \<and> \<not> qualifying_line product_line w"
    by auto
  have skip: "fw_versions_loop product_line (l # ls) = fw_versions_loop product_line ls"
  proof (cases w)
    case Nil
    with l show ?thesis by simp
  next
    case (Cons a ws)
    show ?thesis
    proof (cases "a = ''#define''")
      case False
      with Cons l show ?thesis by simp
    next
      case True
      with Cons w(1) have "ws \<noteq> []" by simp
      then have len: "2 \<le> length w" using Cons by (cases ws) auto
      then have "\<not> length w < 2" by simp
      moreover from len w(2) True Cons have "\<not> py_in (take 2 product_line) (w ! 1)"
        by (simp add: qualifying_line_def)
      ultimately show ?thesis using l True Cons by (simp add: Let_def)
    qed
  qed
  from Cons.IH[OF ls pre] skip lines show ?case by simp
qed

lemma fw_versions_loop_first:
  assumes "map py_split lines = pre @ words # post"
      and "\<forall>w\<in>set pre. w \<noteq> [''#define''] \<and> \<not> qualifying_line product_line w"
      and "qualifying_line product_line words" and "3 \<le> length words"
  shows "fw_versions_loop product_line lines = Inr (Some (slice_1_m1 (words ! 2)))"
proof -
  have "map py_split (drop (length pre) lines) = words # post"
    using assms(1) by (simp add: drop_map[symmetric])
  then obtain x xs where "drop (length pre) lines = x # xs" "py_split x = words"
    by (cases "drop (length pre) lines") auto
  with assms(3,4) fw_versions_loop_skips[OF assms(1,2)] show ?thesis
    by (auto simp: qualifying_line_def Let_def)
qed

lemma fw_versions_loop_none:
  assumes "\<forall>w\<in>set (map py_split lines). w \<noteq> [''#define''] \<and> \<not> qualifying_line product_line w"
  shows "fw_versions_loop product_line lines = Inr None"
  using fw_versions_loop_skips[of lines "map py_split lines" "[]" product_line] assms
  by simp

lemma fw_versions_loop_returns:
  "fw_versions_loop product_line lines = Inr r \<Longrightarrow>
   r = map_option (\<lambda>words. slice_1_m1 (words ! 2))
         (find (qualifying_line product_line) (map py_split lines))"
  by (induction lines) (auto simp: Let_def qualifying_line_def split: if_splits)

text \<open>
  C3, as stated, fails: it speaks of every manifest content, but in
  \<open>bare_define_manifest\<close> the first line whose first token is \<^verbatim>\<open>#define\<close> and whose
  second token contains \<^verbatim>\<open>D4\<close> is the second line, with the quoted version 5.13.0, and
  the function does not return it: reading \<^verbatim>\<open>words[1]\<close> of the first line raises
  \<^verbatim>\<open>IndexError\<close>.
\<close>

theorem get_bundled_fw_version_bare_define_counterexample:
  "map py_split (file_lines bare_define_manifest []) =
     [[''#define''], [''#define'', ''D4XX_FW_VERSION'', dquote # ''5.13.0'' @ [dquote]]]
   \<and> py_in (take 2 ''D400'') ''D4XX_FW_VERSION''
   \<and> get_bundled_fw_version bare_define_manifest ''D400'' = Inl IndexError
   \<and> get_bundled_fw_version bare_define_manifest ''D400'' \<noteq> Inr (Some ''5.13.0'')"
  by (simp add: bare_define_manifest_def get_bundled_fw_version_def py_split_def
      py_isspace_def dquote_def)

text \<open>
  C3, amended. Take the lines of the manifest as their lists of whitespace tokens, and call
  a line qualifying when its first token is \<^verbatim>\<open>#define\<close> and its second token contains the
  first two characters of the product line.
  \<^item> When the first qualifying line has at least three tokens and no line before it is a
    bare \<^verbatim>\<open>#define\<close>, \<open>get_bundled_fw_version\<close> returns its third token without the first
    and the last character (for a token in double quotes: the version between them). Every
    other line before it is skipped, whatever it contains, and the lines after it are not
    read.
  \<^item> When no line qualifies and no line is a bare \<^verbatim>\<open>#define\<close>, the result is \<open>None\<close>.
  \<^item> Whenever the function returns at all, it returns what the claim says: the version of
    the first qualifying line, or \<open>None\<close> when there is none.
\<close>

theorem get_bundled_fw_version_first_define:
  "(map py_split (file_lines fw_versions []) = pre @ words # post
      \<and> (\<forall>w\<in>set pre. w \<noteq> [''#define''] \<and> \<not> qualifying_line product_line w)
      \<and> qualifying_line product_line words \<and> 3 \<le> length words
    \<longrightarrow> get_bundled_fw_version fw_versions product_line = Inr (Some (slice_1_m1 (words ! 2))))
   \<and> ((\<forall>w\<in>set (map py_split (file_lines fw_versions [])).
          w \<noteq> [''#define''] \<and> \<not> qualifying_line product_line w)
    \<longrightarrow> get_bundled_fw_version fw_versions product_line = Inr None)
   \<and> (get_bundled_fw_version fw_versions product_line = Inr r
    \<longrightarrow> r = map_option (\<lambda>words. slice_1_m1 (words ! 2))
              (find (qualifying_line product_line) (map py_split (file_lines fw_versions []))))
   \<and> slice_1_m1 (dquote # v @ [dquote]) = v"
  unfolding get_bundled_fw_version_def
  using fw_versions_loop_first[of "file_lines fw_versions []" pre words post product_line]
    fw_versions_loop_none[of "file_lines fw_versions []" product_line]
    fw_versions_loop_returns[of product_line "file_lines fw_versions []" r]
    slice_1_m1_quoted[of v]
  by blast

theorem get_bundled_fw_version_first_define_witness:
  "get_bundled_fw_version guarded_manifest ''D400'' = Inr (Some ''5.13.0'')
   \<and> map_option (\<lambda>words. slice_1_m1 (words ! 2))
        (find (qualifying_line ''D400'') (map py_split (file_lines guarded_manifest [])))
       = Some ''5.13.0''
   \<and> get_bundled_fw_version d4_manifest ''L500'' = Inr None"
proof -
  let ?version = "dquote # ''5.13.0'' @ [dquote]"
  have g: "map py_split (file_lines guarded_manifest []) =
      [[''#ifndef'', ''FIRMWARE_VERSION_H''], [''#define'', ''FIRMWARE_VERSION_H'']]
      @ [''#define'', ''D4XX_FW_VERSION'', ?version] # [[''#define''], [''#endif'']]"
    by (simp add: guarded_manifest_def split_eval)
  have pre: "\<forall>w\<in>set [[''#ifndef'', ''FIRMWARE_VERSION_H''], [''#define'', ''FIRMWARE_VERSION_H'']].
      w \<noteq> [''#define''] \<and> \<not> qualifying_line ''D400'' w"
    by (simp add: qualifying_line_def)
  have q: "qualifying_line ''D400'' [''#define'', ''D4XX_FW_VERSION'', ?version]"
    by (simp add: qualifying_line_def)
  have l: "3 \<le> length [''#define'', ''D4XX_FW_VERSION'', ?version]" by simp
  have "get_bundled_fw_version guarded_manifest ''D400''
          = Inr (Some (slice_1_m1 ([''#define'', ''D4XX_FW_VERSION'', ?version] ! 2)))"
    using get_bundled_fw_version_first_define[of guarded_manifest
        "[[''#ifndef'', ''FIRMWARE_VERSION_H''], [''#define'', ''FIRMWARE_VERSION_H'']]"
        "[''#define'', ''D4XX_FW_VERSION'', ?version]" "[[''#define''], [''#endif'']]" "''D400''"]
      g pre q l
    by blast
  then have found: "get_bundled_fw_version guarded_manifest ''D400'' = Inr (Some ''5.13.0'')"
    by (simp add: slice_1_m1_quoted[of "''5.13.0''", simplified])
  have first: "map_option (\<lambda>words. slice_1_m1 (words ! 2))
        (find (qualifying_line ''D400'') (map py_split (file_lines guarded_manifest [])))
       = Some ''5.13.0''"
    using get_bundled_fw_version_first_define[of guarded_manifest "[]" "[]" "[]" "''D400''"
        "Some ''5.13.0''"] found
    by simp
  have d: "map py_split (file_lines d4_manifest []) =
      [[''#pragma'', ''once''], [''#define'', ''D4XX_FW_VERSION'', ?version]]"
    by (simp add: d4_manifest_def split_eval)
  have "\<forall>w\<in>set (map py_split (file_lines d4_manifest [])).
          w \<noteq> [''#define''] \<and> \<not> qualifying_line ''L500'' w"
    unfolding d by (simp add: qualifying_line_def)
  then have none: "get_bundled_fw_version d4_manifest ''L500'' = Inr None"
    using get_bundled_fw_version_first_define[of d4_manifest "[]" "[]" "[]" "''L500''"] by blast
  from found first none show ?thesis by blast
qed

text \<open>
  C9. \<open>get_bundled_fw_version\<close> is partial: on a manifest that is the bare line
  \<^verbatim>\<open>#define\<close>, and on the line \<^verbatim>\<open>#define D4XX_FOO\<close> for a D400 device, it raises
  \<^verbatim>\<open>IndexError\<close>; it neither returns \<open>None\<close> nor skips the line, even when a line with
  a version follows.
\<close>

theorem get_bundled_fw_version_short_define_raises:
  "get_bundled_fw_version ''#define'' ''D400'' = Inl IndexError
   \<and> get_bundled_fw_version ''#define D4XX_FOO'' ''D400'' = Inl IndexError
   \<and> get_bundled_fw_version bare_define_manifest ''D400'' = Inl IndexError"
  by (simp add: bare_define_manifest_def get_bundled_fw_version_def py_split_def
      py_isspace_def dquote_def)

text \<open>
  C10. On the first qualifying line (first token \<^verbatim>\<open>#define\<close>, second token containing
  the prefix; at least three tokens, and no bare \<^verbatim>\<open>#define\<close> before it), wherever it is in
  the manifest, the result is the third token without its first and its last character,
  whatever these characters are: nothing checks for double quotes, and the result is never
  the token itself. The line \<^verbatim>\<open>#define D4XX_FW_VERSION 5.13.0\<close> gives \<^verbatim>\<open>.13.\<close>.
\<close>

theorem get_bundled_fw_version_strips_unconditionally:
  assumes "map py_split (file_lines fw_versions []) = pre @ words # post"
      and "\<forall>w\<in>set pre. w \<noteq> [''#define''] \<and> \<not> qualifying_line product_line w"
      and "qualifying_line product_line words" and "3 \<le> length words"
  shows "get_bundled_fw_version fw_versions product_line = Inr (Some (butlast (tl (words ! 2))))
         \<and> get_bundled_fw_version fw_versions product_line \<noteq> Inr (Some (words ! 2))"
proof -
  have r: "get_bundled_fw_version fw_versions product_line = Inr (Some (butlast (tl (words ! 2))))"
    unfolding get_bundled_fw_version_def
    using fw_versions_loop_first[OF assms] by (simp add: slice_1_m1_butlast_tl)
  have "words \<in> set (map py_split (file_lines fw_versions []))"
    unfolding assms(1) by simp
  then obtain line where "words = py_split line" by auto
  moreover from assms(4) have "words ! 2 \<in> set words" by simp
  ultimately have "words ! 2 \<noteq> []" by (auto dest: py_split_nonempty)
  then have "butlast (tl (words ! 2)) \<noteq> words ! 2" by (rule butlast_tl_neq)
  with r show ?thesis by simp
qed

theorem get_bundled_fw_version_strips_unconditionally_witness:
  "get_bundled_fw_version unquoted_manifest ''D400'' = Inr (Some ''.13.'')
   \<and> get_bundled_fw_version ''#define D4XX_FW_VERSION 5.13.0'' ''D400'' = Inr (Some ''.13.'')"
proof -
  have u: "map py_split (file_lines unquoted_manifest []) =
      [[''#pragma'', ''once'']] @ [''#define'', ''D4XX_FW_VERSION'', ''5.13.0'', ''x''] # []"
    by (simp add: unquoted_manifest_def split_eval)
  have pre: "\<forall>w\<in>set [[''#pragma'', ''once'']]. w \<noteq> [''#define''] \<and> \<not> qualifying_line ''D400'' w"
    by (simp add: qualifying_line_def)
  have q: "qualifying_line ''D400'' [''#define'', ''D4XX_FW_VERSION'', ''5.13.0'', ''x'']"
    by (simp add: qualifying_line_def)
  have 1: "get_bundled_fw_version unquoted_manifest ''D400'' = Inr (Some ''.13.'')"
    using get_bundled_fw_version_strips_unconditionally[OF u pre q] by simp
  have s: "map py_split (file_lines ''#define D4XX_FW_VERSION 5.13.0'' []) =
      [] @ [''#define'', ''D4XX_FW_VERSION'', ''5.13.0''] # []"
    by (simp add: split_eval)
  have q': "qualifying_line ''D400'' [''#define'', ''D4XX_FW_VERSION'', ''5.13.0'']"
    by (simp add: qualifying_line_def)
  have 2: "get_bundled_fw_version ''#define D4XX_FW_VERSION 5.13.0'' ''D400'' = Inr (Some ''.13.'')"
    using get_bundled_fw_version_strips_unconditionally[OF s _ q'] by simp
  from 1 2 show ?thesis by blast
qed

subsection \<open>The searches and the script\<close>

lemmas search_eval = re_search_def match_here_def at_dollar_def filesin_def

text \<open>What a search for a compiled mask means: the name splits into a prefix that is
  empty or ends in a slash, a part that matches the body item by item, and nothing more
  but perhaps one final line feed.\<close>

lemma match_body_iff:
  "match_body p s = Some r \<longleftrightarrow> (\<exists>comp. s = comp @ r \<and> list_all2 item_matches p comp)"
proof (induction p s rule: match_body.induct)
  case (1 s)
  then show ?case by auto
next
  case (2 i items)
  then show ?case by (auto simp: list_all2_Cons1)
next
  case (3 i items c cs)
  then show ?case
    by (auto simp: list_all2_Cons1 Cons_eq_append_conv)
qed

lemma match_here_iff:
  "match_here p s \<longleftrightarrow>
   (\<exists>comp tail. s = comp @ tail \<and> list_all2 item_matches p comp \<and> (tail = [] \<or> tail = [CHR 0x0A]))"
proof -
  have "match_here p s \<longleftrightarrow> (\<exists>r. match_body p s = Some r \<and> at_dollar r)"
    by (auto simp: match_here_def split: option.splits)
  then show ?thesis
    unfolding match_body_iff at_dollar_def by blast
qed

lemma search_slash_iff:
  "search_slash p s \<longleftrightarrow> (\<exists>pre rest. s = pre @ CHR ''/'' # rest \<and> match_here p rest)"
proof (induction s)
  case Nil
  then show ?case by simp
next
  case (Cons c cs)
  show ?case
  proof
    assume "search_slash p (c # cs)"
    then consider "c = CHR ''/''" "match_here p cs" | "search_slash p cs"
      by (auto split: if_splits)
    then show "\<exists>pre rest. c # cs = pre @ CHR ''/'' # rest \<and> match_here p rest"
    proof cases
      case 1
      then have "c # cs = [] @ CHR ''/'' # cs \<and> match_here p cs" by simp
      then show ?thesis by blast
    next
      case 2
      with Cons.IH obtain pre rest where "cs = pre @ CHR ''/'' # rest" "match_here p rest"
        by blast
      then have "c # cs = (c # pre) @ CHR ''/'' # rest \<and> match_here p rest" by simp
      then show ?thesis by blast
    qed
  next
    assume "\<exists>pre rest. c # cs = pre @ CHR ''/'' # rest \<and> match_here p rest"
    then obtain pre rest where d: "c # cs = pre @ CHR ''/'' # rest" "match_here p rest"
      by blast
    show "search_slash p (c # cs)"
    proof (cases pre)
      case Nil
      with d show ?thesis by simp
    next
      case (Cons a pre')
      with d have "cs = pre' @ CHR ''/'' # rest" by simp
      with d(2) Cons.IH have "search_slash p cs" by blast
      then show ?thesis by simp
    qed
  qed
qed

lemma re_search_iff:
  "re_search p s \<longleftrightarrow>
   (\<exists>pre comp tail. s = pre @ comp @ tail \<and> (pre = [] \<or> last pre = CHR ''/'')
      \<and> list_all2 item_matches p comp \<and> (tail = [] \<or> tail = [CHR 0x0A]))"
  (is "?lhs \<longleftrightarrow> ?rhs")
proof
  assume ?lhs
  then consider "match_here p s" | "search_slash p s"
    by (auto simp: re_search_def split: if_splits)
  then show ?rhs
  proof cases
    case 1
    then obtain comp tail where "s = [] @ comp @ tail" "list_all2 item_matches p comp"
      "tail = [] \<or> tail = [CHR 0x0A]"
      unfolding match_here_iff by auto
    then show ?thesis by blast
  next
    case 2
    then obtain pre rest where s: "s = pre @ CHR ''/'' # rest" and "match_here p rest"
      unfolding search_slash_iff by blast
    then obtain comp tail where "rest = comp @ tail" "list_all2 item_matches p comp"
      "tail = [] \<or> tail = [CHR 0x0A]"
      unfolding match_here_iff by auto
    with s have "s = (pre @ [CHR ''/'']) @ comp @ tail \<and> last (pre @ [CHR ''/'']) = CHR ''/''
        \<and> list_all2 item_matches p comp \<and> (tail = [] \<or> tail = [CHR 0x0A])"
      by simp
    then show ?thesis by blast
  qed
next
  assume ?rhs
  then obtain pre comp tail where d: "s = pre @ comp @ tail" "pre = [] \<or> last pre = CHR ''/''"
      "list_all2 item_matches p comp" "tail = [] \<or> tail = [CHR 0x0A]"
    by blast
  then have here: "match_here p (comp @ tail)"
    unfolding match_here_iff by blast
  show ?lhs
  proof (cases "pre = []")
    case True
    with d here show ?thesis by (simp add: re_search_def)
  next
    case False
    with d(2) have "pre = butlast pre @ [CHR ''/'']"
      by (metis append_butlast_last_id)
    with d(1) have "s = butlast pre @ CHR ''/'' # (comp @ tail)"
      by (metis append_Cons append_Nil append_assoc)
    with here have "search_slash p s"
      unfolding search_slash_iff by blast
    then show ?thesis by (simp add: re_search_def)
  qed
qed

lemma re_compile_updater_mask:
  "re_compile updater_mask = Some (map Literal ''rs-fw-update'' @ AnyChar # map Literal ''exe'')"
  by (simp add: updater_mask_def re_compile_def re_special_def)

lemma length_re_body: "re_body body = Some p \<Longrightarrow> length p = length body"
  by (induction body arbitrary: p) (auto split: option.splits if_splits)

lemma re_compile_image_mask:
  "re_compile (image_mask product_line bundled) = re_body (image_name product_line bundled)"
  by (simp add: re_compile_def image_mask_def)

lemma image_pattern_nonempty:
  "re_compile (image_mask product_line bundled) = Some q \<Longrightarrow> q \<noteq> []"
  by (auto simp: re_compile_image_mask image_name_def dest: length_re_body)

lemma re_search_nonempty: "re_search p s \<Longrightarrow> p \<noteq> [] \<Longrightarrow> s \<noteq> []"
  by (cases p) (auto simp: re_search_def match_here_def)

lemma os_path_join_nonempty: "b \<noteq> [] \<Longrightarrow> os_path_join a b \<noteq> []"
  by (simp add: os_path_join_def)

lemma last_found_last:
  "last_found root files v = (if files = [] then v else Some (os_path_join root (last files)))"
  by (induction files arbitrary: v) auto

lemma last_filter_nonempty:
  assumes "filter (re_search p) leafs \<noteq> []" and "p \<noteq> []"
  shows "last (filter (re_search p) leafs) \<noteq> []"
proof -
  from assms(1) have "last (filter (re_search p) leafs) \<in> set (filter (re_search p) leafs)"
    by (rule last_in_set)
  then have "re_search p (last (filter (re_search p) leafs))" by simp
  then show ?thesis using assms(2) by (rule re_search_nonempty)
qed

lemma py_int_empty: "py_int [] = Inl ValueError"
  by (simp add: py_int_def int_strip_def)

lemma has_newer_fw_empty_bundled: "has_newer_fw current [] \<noteq> Inr r"
proof (cases "split_on CHR ''.'' current")
  case Nil
  then show ?thesis by (simp add: split_on_nonempty)
next
  case (Cons x xs)
  then show ?thesis
    by (cases xs) (simp_all add: has_newer_fw_def py_int_empty)
qed

lemma find_py_updater_mask:
  "find_py leafs updater_mask =
   Some (filter (re_search (map Literal ''rs-fw-update'' @ AnyChar # map Literal ''exe'')) leafs)"
  unfolding find_py_def re_compile_updater_mask by simp

lemma updater_pattern_nonempty: "re_compile updater_mask = Some p \<Longrightarrow> p \<noteq> []"
  by (auto simp: re_compile_updater_mask)

lemma last_match_nonempty:
  assumes "find_py leafs m = Some ms" and "ms \<noteq> []"
      and "\<And>p. re_compile m = Some p \<Longrightarrow> p \<noteq> []"
  shows "last ms \<noteq> []"
proof -
  from assms(1) obtain p where p: "re_compile m = Some p" "ms = filter (re_search p) leafs"
    by (auto simp: find_py_def split: option.splits)
  from p(1) have "p \<noteq> []" by (rule assms(3))
  with assms(2) show ?thesis unfolding p(2) by (intro last_filter_nonempty)
qed

lemma main_reaches_device:
  assumes "fw_versions_isfile e"
      and "find_py (filesin (walk_relpaths e)) updater_mask = Some ups" and "ups \<noteq> []"
      and "devices_all e = [dev]"
  shows "main e = update_device e (os_path_join (root_dir e) (last ups)) dev"
proof -
  from assms(2,3) have "last ups \<noteq> []"
    by (rule last_match_nonempty) (rule updater_pattern_nonempty)
  then have "os_path_join (root_dir e) (last ups) \<noteq> []"
    by (rule os_path_join_nonempty)
  with assms show ?thesis
    by (simp add: main_def last_found_last)
qed

lemma main_at_device:
  assumes "fw_versions_isfile e"
      and "find_py (filesin (walk_relpaths e)) updater_mask \<noteq> Some []"
      and "devices_all e = [dev]"
  shows "\<exists>exe. main e = update_device e exe dev"
proof -
  obtain ups where ups: "find_py (filesin (walk_relpaths e)) updater_mask = Some ups"
    by (simp add: find_py_updater_mask)
  with assms(2) have "ups \<noteq> []" by simp
  from main_reaches_device[OF assms(1) ups this assms(3)] show ?thesis ..
qed

lemma last_found_snoc: "last_found root (files @ [file]) v = Some (os_path_join root file)"
  by (simp add: last_found_last)


lemma re_compile_d4_image_mask:
  "re_compile (image_mask ''D400'' ''5.13.0'') =
   Some (map Literal ''D4XX_FW_Image-5'' @ AnyChar # map Literal ''13'' @ AnyChar # Literal CHR ''0''
         # AnyChar # map Literal ''bin'')"
  by (simp add: re_compile_image_mask image_name_def re_special_def)

text \<open>A firmware version that \<^verbatim>\<open>int\<close> rejects ends the run with the uncaught
  \<^verbatim>\<open>ValueError\<close>, exit status 1, here for a version that starts with \<^verbatim>\<open>\x1c\<close>.\<close>

lemma main_version_not_a_number:
  "main (d4_env\<lparr> devices_all :=
           [\<lparr> dev_firmware_version = CHR 0x1C # ''5.13.0'', dev_product_line = ''D400'' \<rparr>] \<rparr>)
     = Raised ValueError"
  "exit_status ValueError = 1"
  by code_simp+

text \<open>
  C4. In the scenario of the spec (device at 5.12.1, product line D400, manifest line
  \<^verbatim>\<open>#define D4XX_FW_VERSION "5.13.0"\<close>) the bundled version read is 5.13.0, the
  comparison says that an update is needed, and the image name is
  \<^verbatim>\<open>D4XX_FW_Image-5.13.0.bin\<close>: the first two characters of the product line, then
  \<^verbatim>\<open>XX_FW_Image-\<close>, the bundled version and \<^verbatim>\<open>.bin\<close>. The script runs the update
  tool on the file of that name, and exits with status 1 when the tree only holds an image
  of another name.
\<close>

theorem d4_scenario:
  "get_bundled_fw_version d4_manifest ''D400'' = Inr (Some ''5.13.0'')
   \<and> has_newer_fw ''5.12.1'' ''5.13.0'' = Inr True
   \<and> image_name ''D400'' ''5.13.0'' = ''D4XX_FW_Image-5.13.0.bin''
   \<and> image_name product_line bundled = take 2 product_line @ ''XX_FW_Image-'' @ bundled @ ''.bin''
   \<and> main d4_env = Ran ''/librealsense/build/tools/fw-update/rs-fw-update.exe''
                        ''/librealsense/common/fw/D4XX_FW_Image-5.13.0.bin''
   \<and> main (d4_env\<lparr> walk_relpaths := [''build/tools/fw-update/rs-fw-update.exe'',
                                        ''common/fw/D4XX_FW_Image-5.12.1.bin''] \<rparr>)
        = Raised (SystemExit 1)"
proof -
  have 1: "get_bundled_fw_version d4_manifest ''D400'' = Inr (Some ''5.13.0'')"
    by (simp add: manifest_eval)
  have 2: "has_newer_fw ''5.12.1'' ''5.13.0'' = Inr True"
    by (simp add: has_newer_fw_def py_int_eval)
  have 3: "image_name ''D400'' ''5.13.0'' = ''D4XX_FW_Image-5.13.0.bin''"
    by (simp add: image_name_def)
  have 4: "image_name product_line bundled = take 2 product_line @ ''XX_FW_Image-'' @ bundled @ ''.bin''"
    by (simp add: image_name_def)
  have 5: "main d4_env = Ran ''/librealsense/build/tools/fw-update/rs-fw-update.exe''
                        ''/librealsense/common/fw/D4XX_FW_Image-5.13.0.bin''"
    by code_simp
  have 6: "main (d4_env\<lparr> walk_relpaths := [''build/tools/fw-update/rs-fw-update.exe'',
                                        ''common/fw/D4XX_FW_Image-5.12.1.bin''] \<rparr>)
        = Raised (SystemExit 1)"
    by code_simp
  from 1 2 3 4 5 6 show ?thesis by blast
qed

text \<open>
  C5. The script ends with \<^verbatim>\<open>SystemExit(1)\<close>, in the order of its checks, when the
  manifest is not a file, when no name matches the update tool, when the number of devices
  is not one, when the manifest has no version for the product line, when the two versions
  differ in their number of components, and, an update being needed, when no name matches
  the image; it ends with \<^verbatim>\<open>SystemExit(0)\<close> when the earlier checks pass and
  \<open>has_newer_fw\<close> returns false. \<^verbatim>\<open>SystemExit(n)\<close> is exit status \<open>n\<close>.
\<close>

theorem exit_codes:
  "(\<not> fw_versions_isfile e \<longrightarrow> main e = Raised (SystemExit 1))
   \<and> (fw_versions_isfile e \<and> find_py (filesin (walk_relpaths e)) updater_mask = Some []
        \<longrightarrow> main e = Raised (SystemExit 1))
   \<and> (fw_versions_isfile e \<and> find_py (filesin (walk_relpaths e)) updater_mask \<noteq> Some []
        \<and> length (devices_all e) \<noteq> 1
        \<longrightarrow> main e = Raised (SystemExit 1))
   \<and> (fw_versions_isfile e \<and> find_py (filesin (walk_relpaths e)) updater_mask \<noteq> Some []
        \<and> devices_all e = [dev]
        \<longrightarrow> (get_bundled_fw_version (fw_versions_text e) (dev_product_line dev) = Inr None
               \<longrightarrow> main e = Raised (SystemExit 1))
          \<and> (get_bundled_fw_version (fw_versions_text e) (dev_product_line dev) = Inr (Some b)
               \<and> length (split_on CHR ''.'' (dev_firmware_version dev))
                    \<noteq> length (split_on CHR ''.'' b)
               \<longrightarrow> main e = Raised (SystemExit 1))
          \<and> (get_bundled_fw_version (fw_versions_text e) (dev_product_line dev) = Inr (Some b)
               \<and> has_newer_fw (dev_firmware_version dev) b = Inr False
               \<longrightarrow> main e = Raised (SystemExit 0))
          \<and> (get_bundled_fw_version (fw_versions_text e) (dev_product_line dev) = Inr (Some b)
               \<and> has_newer_fw (dev_firmware_version dev) b = Inr True
               \<and> find_py (filesin (walk_relpaths e)) (image_mask (dev_product_line dev) b) = Some []
               \<longrightarrow> main e = Raised (SystemExit 1)))
   \<and> exit_status (SystemExit 0) = 0 \<and> exit_status (SystemExit 1) = 1"
proof -
  have absent: "\<not> fw_versions_isfile e \<Longrightarrow> main e = Raised (SystemExit 1)"
    by (simp add: main_def)
  have no_tool: "main e = Raised (SystemExit 1)"
    if "fw_versions_isfile e" "find_py (filesin (walk_relpaths e)) updater_mask = Some []"
    using that by (simp add: main_def)
  have count: "main e = Raised (SystemExit 1)"
    if "fw_versions_isfile e" "length (devices_all e) \<noteq> 1"
    using that by (simp add: main_def find_py_updater_mask last_found_last)
  have device: "main e = Raised (SystemExit 1)"
    if "fw_versions_isfile e" "find_py (filesin (walk_relpaths e)) updater_mask \<noteq> Some []"
       "devices_all e = [dev]"
       "get_bundled_fw_version (fw_versions_text e) (dev_product_line dev) = Inr None"
    using that main_at_device[OF that(1,2,3)] by (auto simp: update_device_def)
  have mismatch: "main e = Raised (SystemExit 1)"
    if "fw_versions_isfile e" "find_py (filesin (walk_relpaths e)) updater_mask \<noteq> Some []"
       "devices_all e = [dev]"
       "get_bundled_fw_version (fw_versions_text e) (dev_product_line dev) = Inr (Some b)"
       "length (split_on CHR ''.'' (dev_firmware_version dev)) \<noteq> length (split_on CHR ''.'' b)"
    using that main_at_device[OF that(1,2,3)] by (auto simp: update_device_def has_newer_fw_def)
  have uptodate: "main e = Raised (SystemExit 0)"
    if "fw_versions_isfile e" "find_py (filesin (walk_relpaths e)) updater_mask \<noteq> Some []"
       "devices_all e = [dev]"
       "get_bundled_fw_version (fw_versions_text e) (dev_product_line dev) = Inr (Some b)"
       "has_newer_fw (dev_firmware_version dev) b = Inr False"
  proof -
    from that(5) have "b \<noteq> []" using has_newer_fw_empty_bundled by auto
    with that main_at_device[OF that(1,2,3)] show ?thesis
      by (auto simp: update_device_def)
  qed
  have no_image: "main e = Raised (SystemExit 1)"
    if "fw_versions_isfile e" "find_py (filesin (walk_relpaths e)) updater_mask \<noteq> Some []"
       "devices_all e = [dev]"
       "get_bundled_fw_version (fw_versions_text e) (dev_product_line dev) = Inr (Some b)"
       "has_newer_fw (dev_firmware_version dev) b = Inr True"
       "find_py (filesin (walk_relpaths e)) (image_mask (dev_product_line dev) b) = Some []"
    using that main_at_device[OF that(1,2,3)] by (auto simp: update_device_def)
  from absent no_tool count device mismatch uptodate no_image show ?thesis
    by simp
qed

theorem exit_codes_witness:
  "main (d4_env\<lparr> fw_versions_isfile := False \<rparr>) = Raised (SystemExit 1)
   \<and> main (d4_env\<lparr> walk_relpaths := [''common/fw/D4XX_FW_Image-5.13.0.bin''] \<rparr>)
        = Raised (SystemExit 1)
   \<and> main (d4_env\<lparr> devices_all := [] \<rparr>) = Raised (SystemExit 1)
   \<and> main (d4_env\<lparr> devices_all :=
              [\<lparr> dev_firmware_version = ''1.5.5.0'', dev_product_line = ''L500'' \<rparr>] \<rparr>)
        = Raised (SystemExit 1)
   \<and> main (d4_env\<lparr> devices_all :=
              [\<lparr> dev_firmware_version = ''5.13'', dev_product_line = ''D400'' \<rparr>] \<rparr>)
        = Raised (SystemExit 1)
   \<and> main (d4_env\<lparr> devices_all :=
              [\<lparr> dev_firmware_version = ''5.13.0'', dev_product_line = ''D400'' \<rparr>] \<rparr>)
        = Raised (SystemExit 0)
   \<and> main (d4_env\<lparr> devices_all :=
              [\<lparr> dev_firmware_version = ''5.14.2'', dev_product_line = ''D400'' \<rparr>] \<rparr>)
        = Raised (SystemExit 0)
   \<and> main (d4_env\<lparr> walk_relpaths := [''build/tools/fw-update/rs-fw-update.exe''] \<rparr>)
        = Raised (SystemExit 1)"
proof -
  let ?d4 = "\<lparr> dev_firmware_version = ''5.12.1'', dev_product_line = ''D400'' \<rparr>"
  have manifest: "fw_versions_isfile d4_env" "fw_versions_text d4_env = d4_manifest"
    and devs: "devices_all d4_env = [?d4]"
    and walk: "walk_relpaths d4_env = [''build/tools/fw-update/rs-fw-update.exe'',
                        ''common/fw/D4XX_FW_Image-5.13.0.bin'']"
    by (simp_all add: d4_env_def)
  have tool: "find_py (filesin [''build/tools/fw-update/rs-fw-update.exe'',
                        ''common/fw/D4XX_FW_Image-5.13.0.bin'']) updater_mask \<noteq> Some []"
    by (simp add: find_py_updater_mask search_eval)
  have tool': "find_py (filesin [''build/tools/fw-update/rs-fw-update.exe'']) updater_mask \<noteq> Some []"
    by (simp add: find_py_updater_mask search_eval)
  have no_tool: "find_py (filesin [''common/fw/D4XX_FW_Image-5.13.0.bin'']) updater_mask = Some []"
    by (simp add: find_py_updater_mask search_eval)
  have d4: "get_bundled_fw_version d4_manifest ''D400'' = Inr (Some ''5.13.0'')"
    by (simp add: manifest_eval)
  have l5: "get_bundled_fw_version d4_manifest ''L500'' = Inr None"
    by (simp add: manifest_eval)
  have mismatch: "length (split_on CHR ''.'' ''5.13'') \<noteq> length (split_on CHR ''.'' ''5.13.0'')"
    by simp
  have equal: "has_newer_fw ''5.13.0'' ''5.13.0'' = Inr False"
    by (simp add: has_newer_fw_def py_int_eval)
  have exceeds: "has_newer_fw ''5.14.2'' ''5.13.0'' = Inr False"
    by (simp add: has_newer_fw_def py_int_eval)
  have older: "has_newer_fw ''5.12.1'' ''5.13.0'' = Inr True"
    by (simp add: has_newer_fw_def py_int_eval)
  have no_image: "find_py (filesin [''build/tools/fw-update/rs-fw-update.exe''])
                    (image_mask ''D400'' ''5.13.0'') = Some []"
    by (simp add: find_py_def re_compile_d4_image_mask search_eval)
  have 1: "main (d4_env\<lparr> fw_versions_isfile := False \<rparr>) = Raised (SystemExit 1)"
    using exit_codes[of "d4_env\<lparr> fw_versions_isfile := False \<rparr>"] by simp
  have 2: "main (d4_env\<lparr> walk_relpaths := [''common/fw/D4XX_FW_Image-5.13.0.bin''] \<rparr>)
        = Raised (SystemExit 1)"
    using exit_codes[of "d4_env\<lparr> walk_relpaths := [''common/fw/D4XX_FW_Image-5.13.0.bin''] \<rparr>"]
      manifest no_tool by simp
  have 3: "main (d4_env\<lparr> devices_all := [] \<rparr>) = Raised (SystemExit 1)"
    using exit_codes[of "d4_env\<lparr> devices_all := [] \<rparr>"] manifest walk tool by simp
  have 4: "main (d4_env\<lparr> devices_all :=
              [\<lparr> dev_firmware_version = ''1.5.5.0'', dev_product_line = ''L500'' \<rparr>] \<rparr>)
        = Raised (SystemExit 1)"
    using exit_codes[of "d4_env\<lparr> devices_all :=
              [\<lparr> dev_firmware_version = ''1.5.5.0'', dev_product_line = ''L500'' \<rparr>] \<rparr>"
            "\<lparr> dev_firmware_version = ''1.5.5.0'', dev_product_line = ''L500'' \<rparr>"]
      manifest walk tool l5 by simp
  have 5: "main (d4_env\<lparr> devices_all :=
              [\<lparr> dev_firmware_version = ''5.13'', dev_product_line = ''D400'' \<rparr>] \<rparr>)
        = Raised (SystemExit 1)"
    using exit_codes[of "d4_env\<lparr> devices_all :=
              [\<lparr> dev_firmware_version = ''5.13'', dev_product_line = ''D400'' \<rparr>] \<rparr>"
            "\<lparr> dev_firmware_version = ''5.13'', dev_product_line = ''D400'' \<rparr>" "''5.13.0''"]
      manifest walk tool d4 mismatch by simp
  have 6: "main (d4_env\<lparr> devices_all :=
              [\<lparr> dev_firmware_version = ''5.13.0'', dev_product_line = ''D400'' \<rparr>] \<rparr>)
        = Raised (SystemExit 0)"
    using exit_codes[of "d4_env\<lparr> devices_all :=
              [\<lparr> dev_firmware_version = ''5.13.0'', dev_product_line = ''D400'' \<rparr>] \<rparr>"
            "\<lparr> dev_firmware_version = ''5.13.0'', dev_product_line = ''D400'' \<rparr>" "''5.13.0''"]
      manifest walk tool d4 equal by simp
  have 7: "main (d4_env\<lparr> devices_all :=
              [\<lparr> dev_firmware_version = ''5.14.2'', dev_product_line = ''D400'' \<rparr>] \<rparr>)
        = Raised (SystemExit 0)"
    using exit_codes[of "d4_env\<lparr> devices_all :=
              [\<lparr> dev_firmware_version = ''5.14.2'', dev_product_line = ''D400'' \<rparr>] \<rparr>"
            "\<lparr> dev_firmware_version = ''5.14.2'', dev_product_line = ''D400'' \<rparr>" "''5.13.0''"]
      manifest walk tool d4 exceeds by simp
  have 8: "main (d4_env\<lparr> walk_relpaths := [''build/tools/fw-update/rs-fw-update.exe''] \<rparr>)
        = Raised (SystemExit 1)"
    using exit_codes[of "d4_env\<lparr> walk_relpaths := [''build/tools/fw-update/rs-fw-update.exe''] \<rparr>"
            ?d4 "''5.13.0''"]
      manifest devs tool' d4 older no_image by simp
  from 1 2 3 4 5 6 7 8 show ?thesis by blast
qed

text \<open>
  C6 does not hold of the code: the dots of both masks are not escaped, so each stands
  for any character. The anchoring at a component boundary works
  (\<^verbatim>\<open>foo/not-rs-fw-update.exe\<close> is not found), but \<^verbatim>\<open>foo/rs-fw-updateXexe\<close>, whose
  last component is not \<^verbatim>\<open>rs-fw-update.exe\<close>, is found by the search for the update
  tool, and \<^verbatim>\<open>D4XX_FW_Image-5113.0.bin\<close> by the search for the image of version 5.13.0.
\<close>

theorem unescaped_dot_matches_any_character:
  "find_py (filesin [''foo/rs-fw-update.exe'', ''foo/not-rs-fw-update.exe'',
                     ''foo/rs-fw-updateXexe'']) updater_mask
     = Some [''foo/rs-fw-update.exe'', ''foo/rs-fw-updateXexe'']
   \<and> find_py (filesin [''fw/D4XX_FW_Image-5.13.0.bin'', ''fw/D4XX_FW_Image-5113.0.bin''])
        (image_mask ''D400'' ''5.13.0'')
     = Some [''fw/D4XX_FW_Image-5.13.0.bin'', ''fw/D4XX_FW_Image-5113.0.bin'']"
  by code_simp

text \<open>
  C7. When the run reaches the update (the manifest is a file, there is one device, its
  bundled version \<open>b\<close> is newer than its own) and both searches find something, the update
  tool and the image passed to \<^verbatim>\<open>subprocess.run\<close> are the last names, in the order of
  the walk, that match the two patterns, joined to the root directory. In each loop a match
  overwrites the stored one: after the loop the variable holds the last name.
\<close>

theorem last_match_wins:
  assumes "fw_versions_isfile e" and "devices_all e = [dev]"
      and "get_bundled_fw_version (fw_versions_text e) (dev_product_line dev) = Inr (Some b)"
      and "has_newer_fw (dev_firmware_version dev) b = Inr True"
      and "re_compile updater_mask = Some p"
      and "re_compile (image_mask (dev_product_line dev) b) = Some q"
      and "filter (re_search p) (filesin (walk_relpaths e)) \<noteq> []"
      and "filter (re_search q) (filesin (walk_relpaths e)) \<noteq> []"
  shows "main e =
           Ran (os_path_join (root_dir e) (last (filter (re_search p) (filesin (walk_relpaths e)))))
               (os_path_join (root_dir e) (last (filter (re_search q) (filesin (walk_relpaths e)))))
         \<and> last_found root (files @ [file]) v = Some (os_path_join root file)"
proof -
  let ?ups = "filter (re_search p) (filesin (walk_relpaths e))"
  let ?ims = "filter (re_search q) (filesin (walk_relpaths e))"
  have ups: "find_py (filesin (walk_relpaths e)) updater_mask = Some ?ups"
    using assms(5) by (simp add: find_py_def)
  have ims: "find_py (filesin (walk_relpaths e)) (image_mask (dev_product_line dev) b) = Some ?ims"
    using assms(6) by (simp add: find_py_def)
  have at_device: "main e = update_device e (os_path_join (root_dir e) (last ?ups)) dev"
    using assms(1) ups assms(7) assms(2) by (rule main_reaches_device)
  from assms(4) have b: "b \<noteq> []" using has_newer_fw_empty_bundled by auto
  from ims assms(8) have "last ?ims \<noteq> []"
    by (rule last_match_nonempty) (rule image_pattern_nonempty)
  then have image: "os_path_join (root_dir e) (last ?ims) \<noteq> []"
    by (rule os_path_join_nonempty)
  have "update_device e (os_path_join (root_dir e) (last ?ups)) dev =
          Ran (os_path_join (root_dir e) (last ?ups)) (os_path_join (root_dir e) (last ?ims))"
    using assms(3,4,8) b ims image by (simp add: update_device_def last_found_last)
  with at_device show ?thesis by (simp add: last_found_snoc)
qed

theorem last_match_wins_witness:
  "main two_builds_env =
     Ran ''/librealsense/build/Release/rs-fw-update.exe''
         ''/librealsense/build/common/fw/D4XX_FW_Image-5.13.0.bin''"
proof -
  let ?dev = "\<lparr> dev_firmware_version = ''5.12.1'', dev_product_line = ''D400'' \<rparr>"
  have 1: "fw_versions_isfile two_builds_env"
    by (simp add: two_builds_env_def d4_env_def)
  have 2: "devices_all two_builds_env = [?dev]"
    by (simp add: two_builds_env_def d4_env_def)
  have 3: "get_bundled_fw_version (fw_versions_text two_builds_env) (dev_product_line ?dev)
             = Inr (Some ''5.13.0'')"
    by (simp add: two_builds_env_def d4_env_def manifest_eval)
  have 4: "has_newer_fw (dev_firmware_version ?dev) ''5.13.0'' = Inr True"
    by (simp add: has_newer_fw_def py_int_eval)
  have 6: "re_compile (image_mask (dev_product_line ?dev) ''5.13.0'') =
     Some (map Literal ''D4XX_FW_Image-5'' @ AnyChar # map Literal ''13'' @ AnyChar
           # Literal CHR ''0'' # AnyChar # map Literal ''bin'')"
    by (simp add: re_compile_d4_image_mask)
  have 7: "filter (re_search (map Literal ''rs-fw-update'' @ AnyChar # map Literal ''exe''))
             (filesin (walk_relpaths two_builds_env))
           = [''build/Debug/rs-fw-update.exe'', ''build/Release/rs-fw-update.exe'']"
    by (simp add: two_builds_env_def d4_env_def search_eval)
  have 8: "filter (re_search (map Literal ''D4XX_FW_Image-5'' @ AnyChar # map Literal ''13'' @ AnyChar
                # Literal CHR ''0'' # AnyChar # map Literal ''bin''))
             (filesin (walk_relpaths two_builds_env))
           = [''common/fw/D4XX_FW_Image-5.13.0.bin'', ''build/common/fw/D4XX_FW_Image-5.13.0.bin'']"
    by (simp add: two_builds_env_def d4_env_def search_eval)
  have r: "root_dir two_builds_env = ''/librealsense''"
    by (simp add: two_builds_env_def d4_env_def)
  from last_match_wins[OF 1 2 3 4 re_compile_updater_mask 6, unfolded 7 8 r]
  show ?thesis by (simp add: os_path_join_def)
qed

end
